theory Spec2Isabelle
  imports Main
begin

section \<open>The subtask engine of pydevlake (subtasks.py)\<close>

text \<open>
  A shallow embedding of \<^verbatim>\<open>backend/python/pydevlake/pydevlake/subtasks.py\<close>: the
  run-loop \<^verbatim>\<open>Subtask.run\<close> with its helpers, the table \<^verbatim>\<open>SubtaskRun\<close>, and the
  stages \<^verbatim>\<open>Collector\<close> and \<^verbatim>\<open>Convertor\<close>. The stages \<^verbatim>\<open>SubstreamCollector\<close> and
  \<^verbatim>\<open>Extractor\<close> run under the same loop and are not embedded.

  Conventions of the embedding.
  \<^item> A Python exception is a value of type \<open>error\<close>. A method that can raise returns
    \<open>(error option, world)\<close>: the exception raised, if any, and the world as the method
    left it (an exception does not undo what was done before it).
  \<^item> The SQLAlchemy session, the logger and the stream live in one record \<open>world\<close> that
    is passed through every call.
  \<^item> A Python generator or iterable is the finite list of the values it yields, with the
    exception that ends it, if one does.
  \<^item> \<^verbatim>\<open>datetime.now()\<close> is a parameter: the time read at each of its two calls.
  \<^item> The calls that \<^verbatim>\<open>run\<close> itself makes on the session and on \<^verbatim>\<open>json\<close> may raise as
    well. Which of them raise is a parameter of type \<open>faults\<close>; \<open>Subtask_run\<close> is the
    run in which none of them does.
\<close>

subsection \<open>Values\<close>

datatype json =
    JNull
  | JBool bool
  | JNum int
  | JStr string
  | JList "json list"
  | JObj "(string \<times> json) list"

text \<open>
  \<^verbatim>\<open>json.dumps\<close> and \<^verbatim>\<open>json.loads\<close> belong to Python's standard library. The text that
  \<^verbatim>\<open>json.dumps\<close> produces is represented by the value it encodes, so that two texts are equal
  exactly when the encoded values are, and \<^verbatim>\<open>json.loads\<close> gives the value back.
\<close>

datatype json_text = JsonText json

definition json_dumps :: "json \<Rightarrow> json_text" where
  "json_dumps j = JsonText j"

fun json_loads :: "json_text \<Rightarrow> json" where
  "json_loads (JsonText j) = j"

datatype error =
    ZeroDivisionError
  | TypeError
  | Exception string

subsection \<open>Tables\<close>

text \<open>
  \<^verbatim>\<open>class SubtaskRun(SQLModel, table=True)\<close> (lines 121-133). The primary key \<^verbatim>\<open>id\<close> is
  \<open>run_id\<close> here; timestamps are natural numbers.
\<close>

record SubtaskRun =
  run_id :: "nat option"
  subtask_name :: string
  connection_id :: int
  started :: nat
  completed :: "nat option"
  state :: json_text

text \<open>
  The raw, tool and domain models are declared in \<^verbatim>\<open>pydevlake/model.py\<close>; of each only
  the attributes that subtasks.py reads or writes are kept. \<open>data\<close> is the payload
  \<^verbatim>\<open>json.dumps(data).encode('utf8')\<close>. \<open>domain_fields\<close> are the (name, value) pairs
  that iterating an instance of a domain model yields when \<^verbatim>\<open>stream.convert\<close> returns it:
  the models are pydantic models, whose iteration yields one pair for each attribute, the
  \<^verbatim>\<open>id\<close> included. \<^verbatim>\<open>_save\<close> does not read them; the \<^verbatim>\<open>id\<close> that it assigns is
  \<open>domain_model_id\<close>.
\<close>

record RawModel =
  params :: json_text
  data :: json_text

record ToolModel =
  tool_identity :: string
  tool_fields :: json

datatype domain_id = DomainId string int

record DomainModel =
  domain_table :: string
  domain_model_id :: "domain_id option"
  domain_fields :: "(string \<times> json) list"

text \<open>
  Modelled from the spec: \<^verbatim>\<open>generate_domain_id\<close> is imported from \<^verbatim>\<open>pydevlake.model\<close>,
  which is not part of the sources at hand. The spec describes it as a pure function
  \<^verbatim>\<open>generateDomainId(toolRecord, connectionId) -> string\<close>, deterministic in
  (tool record identity, connection id) and such that distinct (tool identity, connection)
  pairs never collide. The string is represented by the pair it is built from.
\<close>

definition generate_domain_id :: "ToolModel \<Rightarrow> int \<Rightarrow> domain_id" where
  "generate_domain_id tool_model connection = DomainId (tool_identity tool_model) connection"

record database =
  subtask_runs :: "SubtaskRun list"
  raw_records :: "RawModel list"
  tool_records :: "ToolModel list"
  domain_records :: "DomainModel list"

subsection \<open>Python objects returned by a conversion function\<close>

text \<open>
  What \<^verbatim>\<open>stream.convert\<close> may return or yield: an instance of \<^verbatim>\<open>DomainModel\<close>, a
  generator object (the values it yields and the exception that ends it, if any), a list,
  a tuple, a dict with string keys, a string, an integer, a boolean, or \<^verbatim>\<open>None\<close>.
\<close>

datatype pyobj =
    DomainObj DomainModel
  | GeneratorObj "pyobj list" "error option"
  | ListObj "pyobj list"
  | TupleObj "pyobj list"
  | DictObj "(string \<times> pyobj) list"
  | StrObj string
  | IntObj int
  | BoolObj bool
  | NoneObj

text \<open>A JSON value as the Python object it stands for.\<close>

primrec of_json :: "json \<Rightarrow> pyobj" where
  "of_json JNull = NoneObj"
| "of_json (JBool b) = BoolObj b"
| "of_json (JNum n) = IntObj n"
| "of_json (JStr s) = StrObj s"
| "of_json (JList xs) = ListObj (map of_json xs)"
| "of_json (JObj kvs) = DictObj (map (map_prod id of_json) kvs)"

text \<open>\<^verbatim>\<open>isinstance(res, Generator)\<close>.\<close>

fun is_generator :: "pyobj \<Rightarrow> bool" where
  "is_generator (GeneratorObj ys fin) = True"
| "is_generator obj = False"

text \<open>
  \<^verbatim>\<open>for each in obj\<close>: the values the loop sees and the exception that ends it. A
  generator, a list and a tuple give their elements, a dict its keys, a string its
  characters; an integer, a boolean and \<^verbatim>\<open>None\<close> are not iterable. An instance of
  \<^verbatim>\<open>DomainModel\<close> is iterable and gives one tuple (name, value) for each attribute it
  holds.
\<close>

fun py_iter :: "pyobj \<Rightarrow> pyobj list \<times> error option" where
  "py_iter (GeneratorObj ys fin) = (ys, fin)"
| "py_iter (ListObj ys) = (ys, None)"
| "py_iter (TupleObj ys) = (ys, None)"
| "py_iter (DictObj kvs) = (map (\<lambda>kv. StrObj (fst kv)) kvs, None)"
| "py_iter (StrObj s) = (map (\<lambda>c. StrObj [c]) s, None)"
| "py_iter (IntObj n) = ([], Some TypeError)"
| "py_iter (BoolObj b) = ([], Some TypeError)"
| "py_iter NoneObj = ([], Some TypeError)"
| "py_iter (DomainObj d) =
     (map (\<lambda>kv. TupleObj [StrObj (fst kv), of_json (snd kv)]) (domain_fields d), None)"

subsection \<open>The world: session, logger, stream\<close>

datatype log_entry =
    Logged_exception error
  | Logged_not_domain_model pyobj

record RemoteProgress =
  increment :: int
  current :: nat

text \<open>
  What the journal of a world records, in the order in which it happens: the calls made
  on the session, and the values that the generator \<^verbatim>\<open>run\<close> yields to its caller.
\<close>

datatype event =
    Op_add_run SubtaskRun
  | Op_merge_run SubtaskRun
  | Op_add_raw RawModel
  | Op_delete_raw json_text
  | Op_merge_domain DomainModel
  | Op_commit
  | Yielded RemoteProgress

text \<open>
  \<open>committed\<close> is the database as committed transactions left it (what is durable);
  \<open>session\<close> is the database as the open session sees it, with the changes that are not
  committed yet; \<open>journal\<close> lists the calls made on the session and the values yielded;
  \<open>log\<close> is what \<^verbatim>\<open>logger.error\<close> received; \<open>convert_calls\<close> counts the calls of
  \<^verbatim>\<open>stream.convert\<close>.
\<close>

record world =
  committed :: database
  session :: database
  journal :: "event list"
  log :: "log_entry list"
  convert_calls :: nat

record Context =
  ctx_connection_id :: int
  incremental :: bool
  scope_id :: json

text \<open>\<^verbatim>\<open>with Session(ctx.engine) as session\<close>: a new session starts from the committed
  database; leaving the block closes it, which drops what was not committed.\<close>

definition session_open :: "world \<Rightarrow> world" where
  "session_open w = w\<lparr>session := committed w\<rparr>"

definition session_close :: "world \<Rightarrow> world" where
  "session_close w = w\<lparr>session := committed w\<rparr>"

definition session_commit :: "world \<Rightarrow> world" where
  "session_commit w = w\<lparr>committed := session w, journal := journal w @ [Op_commit]\<rparr>"

definition logger_error :: "log_entry \<Rightarrow> world \<Rightarrow> world" where
  "logger_error entry w = w\<lparr>log := log w @ [entry]\<rparr>"

text \<open>The next value of the autoincremented primary key of \<^verbatim>\<open>SubtaskRun\<close>.\<close>

definition next_run_id :: "SubtaskRun list \<Rightarrow> nat" where
  "next_run_id rows =
     Suc (fold max (map (\<lambda>r. case run_id r of None \<Rightarrow> 0 | Some k \<Rightarrow> k) rows) 0)"

text \<open>
  \<^verbatim>\<open>session.add(subtask_run)\<close>: the row joins the session and the object receives its
  primary key (SQLAlchemy assigns it when the pending row is first flushed; the object is
  the same one throughout). Nothing is committed.
\<close>

definition session_add_run :: "SubtaskRun \<Rightarrow> world \<Rightarrow> SubtaskRun \<times> world" where
  "session_add_run r w =
     (let r' = r\<lparr>run_id := Some (next_run_id (subtask_runs (session w)))\<rparr>
      in (r', w\<lparr>session := (session w)\<lparr>subtask_runs := subtask_runs (session w) @ [r']\<rparr>,
                journal := journal w @ [Op_add_run r']\<rparr>))"

text \<open>\<^verbatim>\<open>session.merge(obj)\<close>: the row with the primary key of \<open>obj\<close> takes the attributes
  of \<open>obj\<close>; when there is none the row is inserted.\<close>

definition merge_run :: "SubtaskRun \<Rightarrow> SubtaskRun list \<Rightarrow> SubtaskRun list" where
  "merge_run r rows =
     (if \<exists>x \<in> set rows. run_id x = run_id r
      then map (\<lambda>x. if run_id x = run_id r then r else x) rows
      else rows @ [r])"

definition session_merge_run :: "SubtaskRun \<Rightarrow> world \<Rightarrow> world" where
  "session_merge_run r w =
     w\<lparr>session := (session w)\<lparr>subtask_runs := merge_run r (subtask_runs (session w))\<rparr>,
       journal := journal w @ [Op_merge_run r]\<rparr>"

definition same_domain_key :: "DomainModel \<Rightarrow> DomainModel \<Rightarrow> bool" where
  "same_domain_key x d \<longleftrightarrow>
     domain_table x = domain_table d \<and> domain_model_id x = domain_model_id d"

definition merge_domain :: "DomainModel \<Rightarrow> DomainModel list \<Rightarrow> DomainModel list" where
  "merge_domain d rows =
     (if \<exists>x \<in> set rows. same_domain_key x d
      then map (\<lambda>x. if same_domain_key x d then d else x) rows
      else rows @ [d])"

definition session_merge_domain :: "DomainModel \<Rightarrow> world \<Rightarrow> world" where
  "session_merge_domain d w =
     w\<lparr>session := (session w)\<lparr>domain_records := merge_domain d (domain_records (session w))\<rparr>,
       journal := journal w @ [Op_merge_domain d]\<rparr>"

definition session_add_raw :: "RawModel \<Rightarrow> world \<Rightarrow> world" where
  "session_add_raw raw w =
     w\<lparr>session := (session w)\<lparr>raw_records := raw_records (session w) @ [raw]\<rparr>,
       journal := journal w @ [Op_add_raw raw]\<rparr>"

text \<open>\<^verbatim>\<open>session.execute(sql.delete(raw_model).where(raw_model.params == p))\<close>.\<close>

definition session_delete_raw :: "json_text \<Rightarrow> world \<Rightarrow> world" where
  "session_delete_raw p w =
     w\<lparr>session := (session w)\<lparr>raw_records := filter (\<lambda>raw. params raw \<noteq> p) (raw_records (session w))\<rparr>,
       journal := journal w @ [Op_delete_raw p]\<rparr>"

subsection \<open>The stage contract\<close>

text \<open>
  A subclass of \<^verbatim>\<open>Subtask\<close>: its \<^verbatim>\<open>name\<close> property and its methods \<^verbatim>\<open>fetch(state,
  session, ctx)\<close>, \<^verbatim>\<open>process(data, session, ctx)\<close>, \<^verbatim>\<open>delete(session, ctx)\<close>. \<open>fetch\<close>
  gives the pairs \<^verbatim>\<open>(data, state)\<close> that the iterable yields, in order, and the exception
  that ends the iteration, if any.
\<close>

record 'd Subtask =
  name :: string
  fetch :: "json \<Rightarrow> world \<Rightarrow> Context \<Rightarrow> ('d \<times> json) list \<times> error option"
  process :: "'d \<Rightarrow> world \<Rightarrow> Context \<Rightarrow> error option \<times> world"
  delete :: "world \<Rightarrow> Context \<Rightarrow> error option \<times> world"

subsection \<open>Subtask: the run-loop\<close>

text \<open>\<^verbatim>\<open>Subtask._start_subtask\<close> (lines 80-88).\<close>

definition start_subtask :: "'d Subtask \<Rightarrow> nat \<Rightarrow> world \<Rightarrow> int \<Rightarrow> SubtaskRun \<times> world" where
  "start_subtask self now w connection =
     session_add_run
       \<lparr>run_id = None, subtask_name = name self, connection_id = connection,
        started = now, completed = None, state = json_dumps (JObj [])\<rparr> w"

text \<open>
  \<^verbatim>\<open>Subtask._get_last_state\<close> (lines 107-118). \<^verbatim>\<open>order_by(SubtaskRun.started)\<close> sorts
  ascending; rows with the same start time stay in table order. \<^verbatim>\<open>first()\<close> takes the head.
\<close>

definition get_last_state :: "'d Subtask \<Rightarrow> world \<Rightarrow> int \<Rightarrow> json" where
  "get_last_state self w connection =
     (case sort_key started
             (filter (\<lambda>r. subtask_name r = name self \<and> connection_id r = connection
                           \<and> completed r \<noteq> None)
                (subtask_runs (session w))) of
        [] \<Rightarrow> JObj []
      | subtask_run # rest \<Rightarrow> json_loads (state subtask_run))"

text \<open>
  The calls that \<^verbatim>\<open>run\<close> makes itself, outside the stage, may raise: \<^verbatim>\<open>_start_subtask\<close>
  (line 50), \<^verbatim>\<open>_get_last_state\<close> (line 52), the checkpoint at the item of a given index
  (\<^verbatim>\<open>json.dumps\<close>, \<^verbatim>\<open>session.merge\<close> and \<^verbatim>\<open>session.commit\<close>, lines 63-65) and the last
  write (lines 75-78). A value of type \<open>faults\<close> says which of them raise, and what. A
  call that raises leaves the world as it was.
\<close>

record faults =
  start_fault :: "error option"
  last_state_fault :: "error option"
  checkpoint_fault :: "nat \<Rightarrow> error option"
  finalize_fault :: "error option"

definition no_faults :: faults where
  "no_faults =
     \<lparr>start_fault = None, last_state_fault = None, checkpoint_fault = (\<lambda>i. None),
      finalize_fault = None\<rparr>"

text \<open>
  Lines 63-65, a checkpoint: the object takes the encoded state, is merged and the session
  is committed. The object is returned as it is afterwards.
\<close>

definition checkpoint :: "SubtaskRun \<Rightarrow> json \<Rightarrow> world \<Rightarrow> SubtaskRun \<times> world" where
  "checkpoint subtask_run st w =
     (let subtask_run' = subtask_run\<lparr>state := json_dumps st\<rparr>
      in (subtask_run', session_commit (session_merge_run subtask_run' w)))"

text \<open>Lines 68-71: the generator yields a value to its caller.\<close>

definition yield_progress :: "RemoteProgress \<Rightarrow> world \<Rightarrow> world" where
  "yield_progress progress w = w\<lparr>journal := journal w @ [Yielded progress]\<rparr>"

text \<open>
  The body of the \<^verbatim>\<open>try\<close> statement (lines 57-73), over the enumerated items
  \<^verbatim>\<open>enumerate(self.fetch(state, session, ctx))\<close>. \<open>fin\<close> is the exception that ends the
  iterable, if any. The result is the suspensions of the generator (each value yielded,
  with the world as the caller finds it at that moment), the object \<^verbatim>\<open>subtask_run\<close>, the
  variable \<^verbatim>\<open>state\<close> and the world when the \<^verbatim>\<open>try\<close> statement is left. The loop
  variable \<^verbatim>\<open>state\<close> is bound before \<^verbatim>\<open>process\<close> is called. \<^verbatim>\<open>i % 0\<close> raises
  \<^verbatim>\<open>ZeroDivisionError\<close>; every exception is caught by \<^verbatim>\<open>except Exception\<close> and logged,
  which ends the loop.
\<close>

fun run_loop_with ::
  "faults \<Rightarrow> 'd Subtask \<Rightarrow> Context \<Rightarrow> int \<Rightarrow> (nat \<times> 'd \<times> json) list \<Rightarrow> error option \<Rightarrow>
   SubtaskRun \<Rightarrow> json \<Rightarrow> world \<Rightarrow>
   (RemoteProgress \<times> world) list \<times> SubtaskRun \<times> json \<times> world" where
  "run_loop_with faults self ctx sync_point_interval [] fin subtask_run st w =
     (case fin of
        None \<Rightarrow> ([], subtask_run, st, w)
      | Some e \<Rightarrow> ([], subtask_run, st, logger_error (Logged_exception e) w))"
| "run_loop_with faults self ctx sync_point_interval ((i, d, st') # items) fin subtask_run st w =
     (case process self d w ctx of
        (Some e, w1) \<Rightarrow> ([], subtask_run, st', logger_error (Logged_exception e) w1)
      | (None, w1) \<Rightarrow>
          if sync_point_interval = 0
          then ([], subtask_run, st', logger_error (Logged_exception ZeroDivisionError) w1)
          else if int i mod sync_point_interval = 0 \<and> i \<noteq> 0
          then
            (case checkpoint_fault faults i of
               Some e \<Rightarrow> ([], subtask_run, st', logger_error (Logged_exception e) w1)
             | None \<Rightarrow>
                 (let (subtask_run1, w2) = checkpoint subtask_run st' w1;
                      progress = \<lparr>increment = sync_point_interval, current = i\<rparr>;
                      w3 = yield_progress progress w2;
                      (suspended, rest) =
                         run_loop_with faults self ctx sync_point_interval items fin
                           subtask_run1 st' w3
                  in ((progress, w3) # suspended, rest)))
          else run_loop_with faults self ctx sync_point_interval items fin subtask_run st' w1)"

text \<open>Lines 75-78: the last write of the run.\<close>

definition finalize :: "SubtaskRun \<Rightarrow> json \<Rightarrow> nat \<Rightarrow> world \<Rightarrow> SubtaskRun \<times> world" where
  "finalize subtask_run st now w =
     (let subtask_run' = subtask_run\<lparr>state := json_dumps st, completed := Some now\<rparr>
      in (subtask_run', session_commit (session_merge_run subtask_run' w)))"

text \<open>
  Lines 50-55, what \<^verbatim>\<open>run\<close> does before the \<^verbatim>\<open>try\<close> statement: the exception raised
  there, if any, the object \<^verbatim>\<open>subtask_run\<close>, the initial \<^verbatim>\<open>state\<close>, and the world in
  which \<^verbatim>\<open>fetch\<close> is then called.
\<close>

definition run_setup_with ::
  "faults \<Rightarrow> 'd Subtask \<Rightarrow> Context \<Rightarrow> nat \<Rightarrow> world \<Rightarrow>
   error option \<times> SubtaskRun \<times> json \<times> world" where
  "run_setup_with faults self ctx t_start w =
     (case start_fault faults of
        Some e \<Rightarrow> (Some e, fst (start_subtask self t_start w (ctx_connection_id ctx)), JObj [], w)
      | None \<Rightarrow>
          (let (subtask_run, w1) = start_subtask self t_start w (ctx_connection_id ctx)
           in if incremental ctx
              then (case last_state_fault faults of
                      Some e \<Rightarrow> (Some e, subtask_run, JObj [], w1)
                    | None \<Rightarrow>
                        (None, subtask_run, get_last_state self w1 (ctx_connection_id ctx), w1))
              else (case delete self w1 ctx of
                      (failure, w2) \<Rightarrow> (failure, subtask_run, JObj [], w2))))"

text \<open>
  \<^verbatim>\<open>Subtask.run\<close> (lines 48-78), for a caller that iterates the generator to its end.
  \<open>t_start\<close> and \<open>t_end\<close> are the two readings of \<^verbatim>\<open>datetime.now()\<close>. The result tells
  whether an exception left \<^verbatim>\<open>run\<close>, where the generator suspended, and the world
  afterwards.
\<close>

record run_result =
  raised :: "error option"
  suspensions :: "(RemoteProgress \<times> world) list"
  world_after :: world

definition Subtask_run_with ::
  "faults \<Rightarrow> 'd Subtask \<Rightarrow> Context \<Rightarrow> int \<Rightarrow> nat \<Rightarrow> nat \<Rightarrow> world \<Rightarrow> run_result" where
  "Subtask_run_with faults self ctx sync_point_interval t_start t_end w =
     (case run_setup_with faults self ctx t_start (session_open w) of
        (Some e, subtask_run, st, w2) \<Rightarrow>
          \<lparr>raised = Some e, suspensions = [], world_after = session_close w2\<rparr>
      | (None, subtask_run, st, w2) \<Rightarrow>
          (let (items, fin) = fetch self st w2 ctx;
               (suspended, subtask_run', st', w3) =
                  run_loop_with faults self ctx sync_point_interval (enumerate 0 items) fin
                    subtask_run st w2
           in case finalize_fault faults of
                Some e \<Rightarrow>
                  \<lparr>raised = Some e, suspensions = suspended, world_after = session_close w3\<rparr>
              | None \<Rightarrow>
                  (let (subtask_run'', w4) = finalize subtask_run' st' t_end w3
                   in \<lparr>raised = None, suspensions = suspended,
                       world_after = session_close w4\<rparr>)))"

text \<open>The run, and its parts, when none of the calls that \<^verbatim>\<open>run\<close> makes itself raises.\<close>

definition run_loop ::
  "'d Subtask \<Rightarrow> Context \<Rightarrow> int \<Rightarrow> (nat \<times> 'd \<times> json) list \<Rightarrow> error option \<Rightarrow>
   SubtaskRun \<Rightarrow> json \<Rightarrow> world \<Rightarrow>
   (RemoteProgress \<times> world) list \<times> SubtaskRun \<times> json \<times> world" where
  "run_loop = run_loop_with no_faults"

definition run_setup ::
  "'d Subtask \<Rightarrow> Context \<Rightarrow> nat \<Rightarrow> world \<Rightarrow> error option \<times> SubtaskRun \<times> json \<times> world" where
  "run_setup = run_setup_with no_faults"

definition Subtask_run ::
  "'d Subtask \<Rightarrow> Context \<Rightarrow> int \<Rightarrow> nat \<Rightarrow> nat \<Rightarrow> world \<Rightarrow> run_result" where
  "Subtask_run = Subtask_run_with no_faults"

subsection \<open>Streams and subtask names\<close>

text \<open>
  The stream a subtask works for: its names, \<^verbatim>\<open>stream.collect(state, ctx)\<close>, which talks to
  the data source, and \<^verbatim>\<open>stream.convert(tool_model)\<close>. Both are code of the plugin.
  \<^verbatim>\<open>convert\<close> may raise, and nothing makes two calls return the same object, so its
  result is a function of the tool model and of the number of calls made before.
\<close>

record Stream =
  plugin_name :: string
  stream_name :: string
  collect :: "json \<Rightarrow> Context \<Rightarrow> (json \<times> json) list \<times> error option"
  convert :: "nat \<Rightarrow> ToolModel \<Rightarrow> error + pyobj"

text \<open>\<^verbatim>\<open>str.lower\<close> and \<^verbatim>\<open>str.capitalize\<close>, on ASCII letters.\<close>

definition lower_char :: "char \<Rightarrow> char" where
  "lower_char c =
     (let k = of_char c :: nat in if 65 \<le> k \<and> k \<le> 90 then char_of (k + 32) else c)"

definition upper_char :: "char \<Rightarrow> char" where
  "upper_char c =
     (let k = of_char c :: nat in if 97 \<le> k \<and> k \<le> 122 then char_of (k - 32) else c)"

definition lower :: "string \<Rightarrow> string" where
  "lower s = map lower_char s"

fun capitalize :: "string \<Rightarrow> string" where
  "capitalize [] = []"
| "capitalize (c # s) = upper_char c # lower s"

text \<open>The property \<^verbatim>\<open>Subtask.name\<close> (lines 36-38).\<close>

definition Subtask_name :: "string \<Rightarrow> Stream \<Rightarrow> string" where
  "Subtask_name verb stream =
     lower verb @ capitalize (plugin_name stream) @ capitalize (stream_name stream)"

subsection \<open>Collector\<close>

text \<open>\<^verbatim>\<open>Collector._params\<close> (lines 152-156).\<close>

definition Collector_params :: "Context \<Rightarrow> json_text" where
  "Collector_params ctx =
     json_dumps (JObj [(''connection_id'', JNum (ctx_connection_id ctx)), (''scope_id'', scope_id ctx)])"

definition Collector_fetch ::
  "Stream \<Rightarrow> json \<Rightarrow> world \<Rightarrow> Context \<Rightarrow> (json \<times> json) list \<times> error option" where
  "Collector_fetch stream st w ctx = collect stream st ctx"

definition Collector_process :: "json \<Rightarrow> world \<Rightarrow> Context \<Rightarrow> error option \<times> world" where
  "Collector_process d w ctx =
     (None, session_add_raw \<lparr>params = Collector_params ctx, data = json_dumps d\<rparr> w)"

definition Collector_delete :: "world \<Rightarrow> Context \<Rightarrow> error option \<times> world" where
  "Collector_delete w ctx = (None, session_delete_raw (Collector_params ctx) w)"

definition Collector :: "Stream \<Rightarrow> json Subtask" where
  "Collector stream =
     \<lparr>name = Subtask_name ''collect'' stream, fetch = Collector_fetch stream,
      process = Collector_process, delete = Collector_delete\<rparr>"

subsection \<open>Convertor\<close>

definition stream_convert ::
  "Stream \<Rightarrow> ToolModel \<Rightarrow> world \<Rightarrow> (error + pyobj) \<times> world" where
  "stream_convert stream tool_model w =
     (convert stream (convert_calls w) tool_model, w\<lparr>convert_calls := Suc (convert_calls w)\<rparr>)"

text \<open>\<^verbatim>\<open>Convertor._save\<close> (lines 206-212).\<close>

definition Convertor_save :: "ToolModel \<Rightarrow> pyobj \<Rightarrow> world \<Rightarrow> int \<Rightarrow> world" where
  "Convertor_save tool_model domain_model w connection =
     (case domain_model of
        DomainObj d \<Rightarrow>
          session_merge_domain
            (d\<lparr>domain_model_id := Some (generate_domain_id tool_model connection)\<rparr>) w
      | _ \<Rightarrow> logger_error (Logged_not_domain_model domain_model) w)"

text \<open>\<^verbatim>\<open>Convertor.process\<close> (lines 198-204).\<close>

definition Convertor_process ::
  "Stream \<Rightarrow> ToolModel \<Rightarrow> world \<Rightarrow> Context \<Rightarrow> error option \<times> world" where
  "Convertor_process stream tool_model w ctx =
     (case stream_convert stream tool_model w of
        (Inl e, w1) \<Rightarrow> (Some e, w1)
      | (Inr res, w1) \<Rightarrow>
          if is_generator res
          then (case stream_convert stream tool_model w1 of
                  (Inl e, w2) \<Rightarrow> (Some e, w2)
                | (Inr res2, w2) \<Rightarrow>
                    (case py_iter res2 of
                       (ys, fin) \<Rightarrow>
                         (fin, fold (\<lambda>each w'. Convertor_save tool_model each w' (ctx_connection_id ctx))
                                 ys w2)))
          else (None, Convertor_save tool_model res w1 (ctx_connection_id ctx)))"

definition Convertor_fetch ::
  "json \<Rightarrow> world \<Rightarrow> Context \<Rightarrow> (ToolModel \<times> json) list \<times> error option" where
  "Convertor_fetch st w ctx = (map (\<lambda>item. (item, st)) (tool_records (session w)), None)"

definition Convertor_delete :: "world \<Rightarrow> Context \<Rightarrow> error option \<times> world" where
  "Convertor_delete w ctx = (None, w)"

definition Convertor :: "Stream \<Rightarrow> ToolModel Subtask" where
  "Convertor stream =
     \<lparr>name = Subtask_name ''convert'' stream, fetch = Convertor_fetch,
      process = Convertor_process stream, delete = Convertor_delete\<rparr>"

subsection \<open>Vocabulary of the properties\<close>

text \<open>
  The events of a checkpoint: a merge of a \<^verbatim>\<open>SubtaskRun\<close>, a commit, and a value yielded.
\<close>

fun is_checkpoint_event :: "event \<Rightarrow> bool" where
  "is_checkpoint_event (Op_merge_run r) = True"
| "is_checkpoint_event Op_commit = True"
| "is_checkpoint_event (Yielded p) = True"
| "is_checkpoint_event ev = False"

text \<open>
  What one call of \<^verbatim>\<open>_save\<close> adds to the journal of the session (\<open>upserted\<close>) and to the
  log (\<open>rejected\<close>), by the object it is given.
\<close>

fun upserted :: "ToolModel \<Rightarrow> int \<Rightarrow> pyobj \<Rightarrow> event list" where
  "upserted tool_model connection (DomainObj d) =
     [Op_merge_domain (d\<lparr>domain_model_id := Some (generate_domain_id tool_model connection)\<rparr>)]"
| "upserted tool_model connection obj = []"

fun rejected :: "pyobj \<Rightarrow> log_entry list" where
  "rejected (DomainObj d) = []"
| "rejected obj = [Logged_not_domain_model obj]"

subsection \<open>Example inputs\<close>

definition example_ctx :: "bool \<Rightarrow> Context" where
  "example_ctx inc = \<lparr>ctx_connection_id = 1, incremental = inc, scope_id = JStr ''board-7''\<rparr>"

definition empty_db :: database where
  "empty_db = \<lparr>subtask_runs = [], raw_records = [], tool_records = [], domain_records = []\<rparr>"

definition empty_world :: world where
  "empty_world =
     \<lparr>committed = empty_db, session = empty_db, journal = [], log = [], convert_calls = 0\<rparr>"

definition world_with_runs :: "SubtaskRun list \<Rightarrow> world" where
  "world_with_runs runs =
     \<lparr>committed = \<lparr>subtask_runs = runs, raw_records = [], tool_records = [], domain_records = []\<rparr>,
      session = \<lparr>subtask_runs = runs, raw_records = [], tool_records = [], domain_records = []\<rparr>,
      journal = [], log = [], convert_calls = 0\<rparr>"

definition world_with_raw :: "RawModel list \<Rightarrow> world" where
  "world_with_raw raws =
     \<lparr>committed = \<lparr>subtask_runs = [], raw_records = raws, tool_records = [], domain_records = []\<rparr>,
      session = \<lparr>subtask_runs = [], raw_records = raws, tool_records = [], domain_records = []\<rparr>,
      journal = [], log = [], convert_calls = 0\<rparr>"

text \<open>Two finished runs of the same subtask and connection: the first started at 10, the
  second at 30.\<close>

definition first_run :: SubtaskRun where
  "first_run =
     \<lparr>run_id = Some 1, subtask_name = ''collectJiraIssues'', connection_id = 1,
      started = 10, completed = Some 20, state = json_dumps (JObj [(''page'', JNum 1)])\<rparr>"

definition second_run :: SubtaskRun where
  "second_run =
     \<lparr>run_id = Some 2, subtask_name = ''collectJiraIssues'', connection_id = 1,
      started = 30, completed = Some 40, state = json_dumps (JObj [(''page'', JNum 2)])\<rparr>"

text \<open>A source of 250 items, item \<open>i\<close> coming with the state \<^verbatim>\<open>{"page": i}\<close>.\<close>

definition example_stream :: Stream where
  "example_stream =
     \<lparr>plugin_name = ''jira'', stream_name = ''issues'',
      collect = (\<lambda>st ctx.
         (map (\<lambda>i. (JNum (int i), JObj [(''page'', JNum (int i))])) [0..<250], None)),
      convert = (\<lambda>k t. Inr NoneObj)\<rparr>"

text \<open>A source that raises after three items.\<close>

definition interrupted_stream :: Stream where
  "interrupted_stream =
     \<lparr>plugin_name = ''jira'', stream_name = ''issues'',
      collect = (\<lambda>st ctx.
         ([(JStr ''a'', JObj [(''page'', JNum 1)]),
           (JStr ''b'', JObj [(''page'', JNum 2)]),
           (JStr ''c'', JObj [(''page'', JNum 3)])], Some (Exception ''connection reset''))),
      convert = (\<lambda>k t. Inr NoneObj)\<rparr>"

text \<open>A source that yields one item: the state it was called with.\<close>

definition echo_stream :: Stream where
  "echo_stream =
     \<lparr>plugin_name = ''jira'', stream_name = ''issues'',
      collect = (\<lambda>st ctx. ([(st, st)], None)),
      convert = (\<lambda>k t. Inr NoneObj)\<rparr>"




text \<open>Raw records left by earlier runs: one of the scope of \<open>example_ctx\<close>, one of another.\<close>

definition stale_raw :: RawModel where
  "stale_raw =
     \<lparr>params = json_dumps (JObj [(''connection_id'', JNum 1), (''scope_id'', JStr ''board-7'')]),
      data = json_dumps (JStr ''old'')\<rparr>"

definition foreign_raw :: RawModel where
  "foreign_raw =
     \<lparr>params = json_dumps (JObj [(''connection_id'', JNum 2), (''scope_id'', JStr ''board-9'')]),
      data = json_dumps (JStr ''other'')\<rparr>"

text \<open>A tool record, two domain records, and conversion functions that return one domain
  record, a generator, a list, and a generator whose content changes from call to call.\<close>

definition issue :: ToolModel where
  "issue = \<lparr>tool_identity = ''issue-1'', tool_fields = JNull\<rparr>"

definition ticket :: DomainModel where
  "ticket =
     \<lparr>domain_table = ''tickets'', domain_model_id = None,
      domain_fields = [(''id'', JNull), (''title'', JStr ''t'')]\<rparr>"

definition board_issue :: DomainModel where
  "board_issue =
     \<lparr>domain_table = ''board_issues'', domain_model_id = None,
      domain_fields = [(''id'', JNull), (''board_id'', JStr ''b'')]\<rparr>"

definition converting :: "(nat \<Rightarrow> ToolModel \<Rightarrow> error + pyobj) \<Rightarrow> Stream" where
  "converting f =
     \<lparr>plugin_name = ''jira'', stream_name = ''issues'', collect = (\<lambda>st ctx. ([], None)),
      convert = f\<rparr>"

definition single_stream :: Stream where
  "single_stream = converting (\<lambda>k t. Inr (DomainObj ticket))"

definition generator_stream :: Stream where
  "generator_stream =
     converting (\<lambda>k t. Inr (GeneratorObj [DomainObj ticket, NoneObj, DomainObj board_issue] None))"

definition list_stream :: Stream where
  "list_stream = converting (\<lambda>k t. Inr (ListObj [DomainObj ticket, DomainObj board_issue]))"

definition changing_stream :: Stream where
  "changing_stream =
     converting (\<lambda>k t. if k = 0 then Inr (GeneratorObj [DomainObj ticket] None)
                        else Inr (GeneratorObj [DomainObj board_issue] None))"

section \<open>Properties\<close>

subsection \<open>The session\<close>

lemma json_loads_dumps: "json_loads (json_dumps j) = j"
  by (simp add: json_dumps_def)




lemma merge_run_mem: "r \<in> set (merge_run r rows)"
  by (auto simp: merge_run_def)

lemma merge_run_same_id:
  "x \<in> set (merge_run r rows) \<Longrightarrow> run_id x = run_id r \<Longrightarrow> x = r"
  by (auto simp: merge_run_def split: if_splits)

lemma session_close_committed: "committed (session_close w) = committed w"
  by (simp add: session_close_def)

lemma session_close_log: "log (session_close w) = log w"
  by (simp add: session_close_def)

lemma finalize_committed:
  "subtask_runs (committed (snd (finalize r st now w))) =
     merge_run (r\<lparr>state := json_dumps st, completed := Some now\<rparr>) (subtask_runs (session w))"
  by (simp add: finalize_def Let_def session_commit_def session_merge_run_def)

lemma finalize_log: "log (snd (finalize r st now w)) = log w"
  by (simp add: finalize_def Let_def session_commit_def session_merge_run_def)



subsection \<open>The loop\<close>

text \<open>The equations of the loop when none of the calls of \<^verbatim>\<open>run\<close> itself raises.\<close>

lemma run_loop_Nil:
  "run_loop self ctx n [] fin r st w =
     (case fin of
        None \<Rightarrow> ([], r, st, w)
      | Some e \<Rightarrow> ([], r, st, logger_error (Logged_exception e) w))"
  by (simp add: run_loop_def)

lemma run_loop_Cons:
  "run_loop self ctx n ((i, d, st') # items) fin r st w =
     (case process self d w ctx of
        (Some e, w1) \<Rightarrow> ([], r, st', logger_error (Logged_exception e) w1)
      | (None, w1) \<Rightarrow>
          if n = 0
          then ([], r, st', logger_error (Logged_exception ZeroDivisionError) w1)
          else if int i mod n = 0 \<and> i \<noteq> 0
          then
            (let (r1, w2) = checkpoint r st' w1;
                 progress = \<lparr>increment = n, current = i\<rparr>;
                 w3 = yield_progress progress w2;
                 (suspended, rest) = run_loop self ctx n items fin r1 st' w3
             in ((progress, w3) # suspended, rest))
          else run_loop self ctx n items fin r st' w1)"
proof -
  have cf: "checkpoint_fault no_faults i = None"
    by (simp add: no_faults_def)
  obtain a w1 where p: "process self d w ctx = (a, w1)"
    by (cases "process self d w ctx")
  show ?thesis
    by (cases a) (simp_all add: run_loop_def p cf)
qed

text \<open>The loop changes nothing of the object \<^verbatim>\<open>subtask_run\<close> but its state.\<close>

lemma run_loop_with_row:
  "(fst (snd (run_loop_with faults self ctx n items fin r st w)))\<lparr>state := x\<rparr> = r\<lparr>state := x\<rparr>"
proof (induction items arbitrary: r st w)
  case Nil
  then show ?case by (simp split: option.splits)
next
  case (Cons item items)
  obtain i d st' where item: "item = (i, d, st')" by (cases item)
  show ?case
    by (simp add: item checkpoint_def Let_def split_beta Cons.IH split: option.splits)
qed


text \<open>When \<^verbatim>\<open>process\<close> does not raise and the interval is not zero, the loop runs over
  every item: its last state, its last log entry, and the events of its checkpoints.\<close>

lemma run_loop_state:
  assumes "\<And>d w. fst (process self d w ctx) = None" and "n \<noteq> 0"
  shows "fst (snd (snd (run_loop self ctx n items fin r st w))) =
    (if items = [] then st else snd (snd (last items)))"
proof (induction items arbitrary: r st w)
  case Nil
  then show ?case by (simp add: run_loop_Nil split: option.splits)
next
  case (Cons item items)
  obtain i d st' where item: "item = (i, d, st')" by (cases item)
  obtain w1 where p: "process self d w ctx = (None, w1)"
    using assms(1) [of d w] by (cases "process self d w ctx") auto
  show ?case
    by (simp add: item run_loop_Cons p assms(2) Let_def split_beta Cons.IH run_loop_Nil
        split: option.splits)
qed

lemma run_loop_log:
  assumes "\<And>d w. fst (process self d w ctx) = None" and "n \<noteq> 0"
  shows "\<exists>l. log (snd (snd (snd (run_loop self ctx n items (Some e) r st w)))) =
    l @ [Logged_exception e]"
proof (induction items arbitrary: r st w)
  case Nil
  then show ?case by (simp add: run_loop_Nil logger_error_def)
next
  case (Cons item items)
  obtain i d st' where item: "item = (i, d, st')" by (cases item)
  obtain w1 where p: "process self d w ctx = (None, w1)"
    using assms(1) [of d w] by (cases "process self d w ctx") auto
  show ?case
    by (simp add: item run_loop_Cons p assms(2) Let_def split_beta Cons.IH)
qed











subsection \<open>The run\<close>

lemma start_subtask_eq:
  "start_subtask self now w c =
    (\<lparr>run_id = Some (next_run_id (subtask_runs (session w))), subtask_name = name self,
       connection_id = c, started = now, completed = None, state = json_dumps (JObj [])\<rparr>,
     w\<lparr>session := (session w)\<lparr>subtask_runs := subtask_runs (session w) @
          [\<lparr>run_id = Some (next_run_id (subtask_runs (session w))), subtask_name = name self,
            connection_id = c, started = now, completed = None, state = json_dumps (JObj [])\<rparr>]\<rparr>,
        journal := journal w @
          [Op_add_run \<lparr>run_id = Some (next_run_id (subtask_runs (session w))),
            subtask_name = name self, connection_id = c, started = now, completed = None,
            state = json_dumps (JObj [])\<rparr>]\<rparr>)"
  by (simp add: start_subtask_def session_add_run_def Let_def)

text \<open>The run just started has no completion time, so the query does not see it.\<close>

lemma get_last_state_after_start:
  "get_last_state self (snd (start_subtask self now w c)) c' = get_last_state self w c'"
  by (simp add: start_subtask_eq get_last_state_def)

text \<open>What \<^verbatim>\<open>run\<close> does before the loop, in either mode, when its own calls do not raise.\<close>

lemma run_setup_modes:
  "run_setup self ctx t w =
     (if incremental ctx
      then (None, fst (start_subtask self t w (ctx_connection_id ctx)),
            get_last_state self w (ctx_connection_id ctx),
            snd (start_subtask self t w (ctx_connection_id ctx)))
      else (fst (delete self (snd (start_subtask self t w (ctx_connection_id ctx))) ctx),
            fst (start_subtask self t w (ctx_connection_id ctx)),
            JObj [],
            snd (delete self (snd (start_subtask self t w (ctx_connection_id ctx))) ctx)))"
  by (simp add: run_setup_def run_setup_with_def no_faults_def split_beta
      get_last_state_after_start)

lemma run_setup_row:
  "fst (snd (run_setup self ctx t w)) = fst (start_subtask self t w (ctx_connection_id ctx))"
  by (simp add: run_setup_modes)




text \<open>The run, once the steps before the loop have not raised.\<close>

lemma Subtask_run_with_world:
  assumes "run_setup_with faults self ctx t0 (session_open w) = (None, r, st, w2)"
    and "fetch self st w2 ctx = (xs, fin)"
  shows "world_after (Subtask_run_with faults self ctx n t0 t1 w) =
      session_close
        (case finalize_fault faults of
           Some e \<Rightarrow> snd (snd (snd (run_loop_with faults self ctx n (enumerate 0 xs) fin r st w2)))
         | None \<Rightarrow> snd (finalize
            (fst (snd (run_loop_with faults self ctx n (enumerate 0 xs) fin r st w2)))
            (fst (snd (snd (run_loop_with faults self ctx n (enumerate 0 xs) fin r st w2)))) t1
            (snd (snd (snd (run_loop_with faults self ctx n (enumerate 0 xs) fin r st w2))))))"
    and "suspensions (Subtask_run_with faults self ctx n t0 t1 w) =
      fst (run_loop_with faults self ctx n (enumerate 0 xs) fin r st w2)"
    and "raised (Subtask_run_with faults self ctx n t0 t1 w) = finalize_fault faults"
  using assms by (simp_all add: Subtask_run_with_def split_beta Let_def split: option.splits)

lemma Subtask_run_world:
  assumes "run_setup self ctx t0 (session_open w) = (None, r, st, w2)"
    and "fetch self st w2 ctx = (xs, fin)"
  shows "world_after (Subtask_run self ctx n t0 t1 w) =
      session_close (snd (finalize
        (fst (snd (run_loop self ctx n (enumerate 0 xs) fin r st w2)))
        (fst (snd (snd (run_loop self ctx n (enumerate 0 xs) fin r st w2)))) t1
        (snd (snd (snd (run_loop self ctx n (enumerate 0 xs) fin r st w2))))))"
    and "suspensions (Subtask_run self ctx n t0 t1 w) =
      fst (run_loop self ctx n (enumerate 0 xs) fin r st w2)"
    and "raised (Subtask_run self ctx n t0 t1 w) = None"
  using Subtask_run_with_world [of no_faults self ctx t0 w r st w2 xs fin n t1] assms
  by (simp_all add: Subtask_run_def run_setup_def run_loop_def no_faults_def)

text \<open>The last write of a run that reaches the loop: the row of the run, with the state
  the loop ended in and the completion time, merged into the table and committed.\<close>

lemma run_final_row_with:
  assumes "run_setup_with faults self ctx t0 (session_open w) = (None, r, st, w2)"
    and "fetch self st w2 ctx = (xs, fin)"
    and "finalize_fault faults = None"
  shows "\<exists>rows. subtask_runs (committed (world_after (Subtask_run_with faults self ctx n t0 t1 w))) =
      merge_run (r\<lparr>state := json_dumps
          (fst (snd (snd (run_loop_with faults self ctx n (enumerate 0 xs) fin r st w2)))),
          completed := Some t1\<rparr>) rows"
proof -
  let ?L = "run_loop_with faults self ctx n (enumerate 0 xs) fin r st w2"
  have "(fst (snd ?L))\<lparr>state := json_dumps (fst (snd (snd ?L)))\<rparr>
      = r\<lparr>state := json_dumps (fst (snd (snd ?L)))\<rparr>"
    by (rule run_loop_with_row)
  then have "(fst (snd ?L))\<lparr>state := json_dumps (fst (snd (snd ?L))), completed := Some t1\<rparr>
      = r\<lparr>state := json_dumps (fst (snd (snd ?L))), completed := Some t1\<rparr>"
    by metis
  then show ?thesis
    by (simp add: Subtask_run_with_world(1) [OF assms(1,2)] assms(3) session_close_committed
        finalize_committed) blast
qed

lemma run_final_row:
  assumes "run_setup self ctx t0 (session_open w) = (None, r, st, w2)"
    and "fetch self st w2 ctx = (xs, fin)"
  shows "\<exists>rows. subtask_runs (committed (world_after (Subtask_run self ctx n t0 t1 w))) =
      merge_run (r\<lparr>state := json_dumps
          (fst (snd (snd (run_loop self ctx n (enumerate 0 xs) fin r st w2)))),
          completed := Some t1\<rparr>) rows"
  using run_final_row_with [of no_faults self ctx t0 w r st w2 xs fin n t1] assms
  by (simp add: Subtask_run_def run_setup_def run_loop_def no_faults_def)

subsection \<open>Evaluation of the examples\<close>

lemma lower_collect: "lower ''collect'' = ''collect''"
  by code_simp

lemma capitalize_jira: "capitalize ''jira'' = ''Jira''"
  by code_simp

lemma capitalize_issues: "capitalize ''issues'' = ''Issues''"
  by code_simp

lemma jira_issues_name:
  "Subtask_name ''collect''
     \<lparr>plugin_name = ''jira'', stream_name = ''issues'', collect = c, convert = v\<rparr>
     = ''collectJiraIssues''"
  by (simp add: Subtask_name_def lower_collect capitalize_jira capitalize_issues
      del: capitalize.simps)

lemmas eval_defs = Subtask_run_def Subtask_run_with_def run_setup_def run_setup_with_def
  no_faults_def start_subtask_eq session_open_def
  session_close_def empty_world_def empty_db_def world_with_runs_def world_with_raw_def
  next_run_id_def example_ctx_def Collector_def Collector_delete_def Collector_fetch_def
  Collector_process_def Collector_params_def session_delete_raw_def session_add_raw_def
  session_commit_def session_merge_run_def merge_run_def finalize_def checkpoint_def
  yield_progress_def logger_error_def get_last_state_def Let_def jira_issues_name



section \<open>The claims\<close>

subsection \<open>C1: the state an incremental run resumes from\<close>

text \<open>
  C1 says that \<^verbatim>\<open>_get_last_state\<close> returns the state of the most recently started run among
  the completed runs of the subtask and connection. The query orders by
  \<^verbatim>\<open>SubtaskRun.started\<close> ascending and takes the first row, so with two completed runs,
  started at 10 and at 30, it returns the state of the run started at 10,
  \<^verbatim>\<open>{"page": 1}\<close>, and not the state \<^verbatim>\<open>{"page": 2}\<close> of the run started at 30.
\<close>

theorem get_last_state_takes_earliest_run:
  "get_last_state (Collector example_stream) (world_with_runs [first_run, second_run]) 1
     = JObj [(''page'', JNum 1)]"
  by (simp add: get_last_state_def Collector_def example_stream_def jira_issues_name
      world_with_runs_def first_run_def second_run_def json_dumps_def)

subsection \<open>What the query returns in general\<close>

lemma hd_sort_key_least:
  assumes "xs \<noteq> []"
  shows "hd (sort_key f xs) \<in> set xs \<and> (\<forall>x \<in> set xs. f (hd (sort_key f xs)) \<le> f x)"
proof -
  have "sort_key f xs \<noteq> []" using assms by (metis length_sort length_0_conv)
  then obtain y ys where eq: "sort_key f xs = y # ys" by (cases "sort_key f xs") auto
  have "sorted (map f (sort_key f xs))" by (rule sorted_sort_key)
  then have "\<forall>x \<in> set ys. f y \<le> f x" by (simp add: eq)
  moreover have "set (y # ys) = set xs" by (metis eq set_sort)
  ultimately show ?thesis by (auto simp: eq)
qed

text \<open>
  With no completed run of the subtask and connection the result is the empty mapping.
  Otherwise it is the decoded state of a completed run of the subtask and connection that
  started no later than any other one: the earliest, not the latest.
\<close>

lemma get_last_state_none:
  assumes "\<forall>r \<in> set (subtask_runs (session w)).
     \<not> (subtask_name r = name self \<and> connection_id r = c \<and> completed r \<noteq> None)"
  shows "get_last_state self w c = JObj []"
proof -
  have "filter (\<lambda>r. subtask_name r = name self \<and> connection_id r = c \<and> completed r \<noteq> None)
      (subtask_runs (session w)) = []"
    using assms by (simp add: filter_empty_conv)
  then show ?thesis by (simp add: get_last_state_def)
qed

lemma get_last_state_earliest:
  assumes "r0 \<in> set (subtask_runs (session w))"
    and "subtask_name r0 = name self" and "connection_id r0 = c" and "completed r0 \<noteq> None"
  shows "\<exists>r \<in> set (subtask_runs (session w)).
     subtask_name r = name self \<and> connection_id r = c \<and> completed r \<noteq> None \<and>
     get_last_state self w c = json_loads (state r) \<and>
     (\<forall>x \<in> set (subtask_runs (session w)).
        subtask_name x = name self \<and> connection_id x = c \<and> completed x \<noteq> None
        \<longrightarrow> started r \<le> started x)"
proof -
  define P where "P = (\<lambda>r :: SubtaskRun. subtask_name r = name self \<and> connection_id r = c \<and> completed r \<noteq> None)"
  define xs where "xs = filter P (subtask_runs (session w))"
  define r where "r = hd (sort_key started xs)"
  have mem: "r0 \<in> set xs" using assms by (simp add: xs_def P_def)
  then have ne: "xs \<noteq> []" by auto
  have h: "r \<in> set xs \<and> (\<forall>x \<in> set xs. started r \<le> started x)"
    unfolding r_def by (rule hd_sort_key_least [OF ne])
  have "sort_key started xs \<noteq> []" using ne by (metis length_sort length_0_conv)
  then obtain ys where srt: "sort_key started xs = r # ys"
    unfolding r_def by (cases "sort_key started xs") simp_all
  have "get_last_state self w c =
      (case sort_key started xs of [] \<Rightarrow> JObj [] | subtask_run # rest \<Rightarrow> json_loads (state subtask_run))"
    unfolding get_last_state_def xs_def P_def by (rule refl)
  then have g: "get_last_state self w c = json_loads (state r)"
    by (simp add: srt)
  have r1: "r \<in> set (subtask_runs (session w))" and r2: "P r"
    using h by (simp_all add: xs_def)
  have least: "\<forall>x \<in> set (subtask_runs (session w)). P x \<longrightarrow> started r \<le> started x"
    using h by (simp add: xs_def)
  show ?thesis
    using r1 r2 g least unfolding P_def by blast
qed

subsection \<open>C2: checkpoint cadence\<close>



subsection \<open>C3: finalization when fetch raises\<close>

text \<open>
  C3: if the fetch sequence raises after yielding k items, the run still ends with a
  finalized \<^verbatim>\<open>SubtaskRun\<close> whose completion time is set and whose state is the state
  yielded alongside item k. Here for a run that reaches the loop, with at least one item
  yielded before the exception, a \<^verbatim>\<open>process\<close> that does not raise and an interval
  other than zero: no exception leaves the run, the committed table holds the row of the
  run with the completion time and the state that came with the last item, every committed
  row with the key of the run is completed with that state, and the exception is the last
  entry of the log.
\<close>

theorem finalization_on_fetch_error:
  assumes "run_setup self ctx t_start (session_open w) = (None, subtask_run, st, w2)"
    and "fetch self st w2 ctx = (xs, Some e)"
    and "xs \<noteq> []"
    and "\<And>d w'. fst (process self d w' ctx) = None"
    and "sync_point_interval \<noteq> 0"
  shows "raised (Subtask_run self ctx sync_point_interval t_start t_end w) = None \<and>
    \<lparr>run_id = Some (next_run_id (subtask_runs (committed w))), subtask_name = name self,
      connection_id = ctx_connection_id ctx, started = t_start, completed = Some t_end,
      state = json_dumps (snd (last xs))\<rparr>
      \<in> set (subtask_runs (committed (world_after
            (Subtask_run self ctx sync_point_interval t_start t_end w)))) \<and>
    (\<forall>x \<in> set (subtask_runs (committed (world_after
            (Subtask_run self ctx sync_point_interval t_start t_end w)))).
       run_id x = Some (next_run_id (subtask_runs (committed w))) \<longrightarrow>
       completed x = Some t_end \<and> state x = json_dumps (snd (last xs))) \<and>
    (\<exists>l. log (world_after (Subtask_run self ctx sync_point_interval t_start t_end w)) =
          l @ [Logged_exception e])"
proof -
  let ?R = "Subtask_run self ctx sync_point_interval t_start t_end w"
  let ?L = "run_loop self ctx sync_point_interval (enumerate 0 xs) (Some e) subtask_run st w2"
  let ?row = "\<lparr>run_id = Some (next_run_id (subtask_runs (committed w))), subtask_name = name self,
      connection_id = ctx_connection_id ctx, started = t_start, completed = Some t_end,
      state = json_dumps (snd (last xs))\<rparr>"
  have r: "subtask_run = fst (start_subtask self t_start (session_open w) (ctx_connection_id ctx))"
    using run_setup_row [of self ctx t_start "session_open w"] assms(1) by simp
  have ne: "enumerate 0 xs \<noteq> []" using assms(3) by (cases xs) simp_all
  have "last (enumerate 0 xs) = (length xs - 1, last xs)"
    using assms(3) by (simp add: enumerate_eq_zip last_zip last_upt del: upt.simps)
  then have s: "fst (snd (snd ?L)) = snd (last xs)"
    using run_loop_state [OF assms(4,5), of "enumerate 0 xs" "Some e" subtask_run st w2] ne
    by simp
  have row: "subtask_run\<lparr>state := json_dumps (snd (last xs)), completed := Some t_end\<rparr> = ?row"
    by (simp add: r start_subtask_eq session_open_def)
  obtain rows where rows: "subtask_runs (committed (world_after ?R)) = merge_run ?row rows"
    using run_final_row [OF assms(1,2), of sync_point_interval t_end] s row by auto
  have "\<exists>l. log (snd (snd (snd ?L))) = l @ [Logged_exception e]"
    by (rule run_loop_log [OF assms(4,5)])
  then have lg: "\<exists>l. log (world_after ?R) = l @ [Logged_exception e]"
    by (simp add: Subtask_run_world(1) [OF assms(1,2)] session_close_log finalize_log)
  have "\<forall>x \<in> set (merge_run ?row rows). run_id x = run_id ?row \<longrightarrow> x = ?row"
    using merge_run_same_id by blast
  then have uniq: "\<forall>x \<in> set (subtask_runs (committed (world_after ?R))).
       run_id x = Some (next_run_id (subtask_runs (committed w))) \<longrightarrow>
       completed x = Some t_end \<and> state x = json_dumps (snd (last xs))"
    unfolding rows by auto
  show ?thesis
    using Subtask_run_world(3) [OF assms(1,2)] rows merge_run_mem [of ?row rows] uniq lg
    by simp
qed

text \<open>
  C3 on a source that raises after three items: the run returns, its row is committed with
  the completion time 9 and the state \<^verbatim>\<open>{"page": 3}\<close> of the third item, and the
  exception is in the log.
\<close>

theorem finalization_on_fetch_error_witness:
  "raised (Subtask_run (Collector interrupted_stream) (example_ctx False) 100 5 9 empty_world)
     = None \<and>
   subtask_runs (committed (world_after
      (Subtask_run (Collector interrupted_stream) (example_ctx False) 100 5 9 empty_world))) =
     [\<lparr>run_id = Some 1, subtask_name = ''collectJiraIssues'', connection_id = 1,
       started = 5, completed = Some 9, state = json_dumps (JObj [(''page'', JNum 3)])\<rparr>] \<and>
   log (world_after
      (Subtask_run (Collector interrupted_stream) (example_ctx False) 100 5 9 empty_world)) =
     [Logged_exception (Exception ''connection reset'')]"
proof -
  let ?r = "\<lparr>run_id = Some 1, subtask_name = ''collectJiraIssues'', connection_id = 1,
        started = 5, completed = None, state = json_dumps (JObj [])\<rparr>"
  obtain w2 where su:
    "run_setup (Collector interrupted_stream) (example_ctx False) 5 (session_open empty_world)
      = (None, ?r, JObj [], w2)"
    by (simp add: eval_defs interrupted_stream_def)
  have f: "fetch (Collector interrupted_stream) (JObj []) w2 (example_ctx False) =
     ([(JStr ''a'', JObj [(''page'', JNum 1)]),
       (JStr ''b'', JObj [(''page'', JNum 2)]),
       (JStr ''c'', JObj [(''page'', JNum 3)])], Some (Exception ''connection reset''))"
    by (simp add: Collector_def Collector_fetch_def interrupted_stream_def)
  have p: "\<And>d w'. fst (process (Collector interrupted_stream) d w' (example_ctx False)) = None"
    by (simp add: Collector_def Collector_process_def)
  show ?thesis
    using finalization_on_fetch_error [OF su f _ p, of 100 9]
    by (simp add: eval_defs interrupted_stream_def)
qed

subsection \<open>C4: which exceptions leave the run\<close>




subsection \<open>C5: incremental and full runs\<close>

text \<open>
  C5 says that an incremental run calls \<^verbatim>\<open>fetch\<close> with the last completed state for the
  stage and the connection and does not call \<^verbatim>\<open>delete\<close>, and that a run that is not
  incremental calls \<^verbatim>\<open>delete\<close> and then \<^verbatim>\<open>fetch\<close> with the empty state. The collector of
  a source that yields the state it was called with stores that state as its one raw
  record. With two completed runs in the table, started at 10 with the state
  \<^verbatim>\<open>{"page": 1}\<close> and at 30 with the state \<^verbatim>\<open>{"page": 2}\<close>, the incremental run stores
  \<^verbatim>\<open>{"page": 1}\<close>: \<^verbatim>\<open>fetch\<close> was called with the state of the earliest completed run, not
  of the last one. The rest is as the claim says: the incremental run deletes nothing,
  and the run that is not incremental deletes the records of its params first and then
  stores \<^verbatim>\<open>{}\<close>, the state \<^verbatim>\<open>fetch\<close> was called with.
\<close>

theorem incremental_run_resumes_from_earliest_state:
  "raw_records (committed (world_after
      (Subtask_run (Collector echo_stream) (example_ctx True) 100 50 60
         (world_with_runs [first_run, second_run])))) =
     [\<lparr>params = json_dumps (JObj [(''connection_id'', JNum 1), (''scope_id'', JStr ''board-7'')]),
       data = json_dumps (JObj [(''page'', JNum 1)])\<rparr>] \<and>
   filter (\<lambda>ev. \<not> is_checkpoint_event ev) (journal (world_after
      (Subtask_run (Collector echo_stream) (example_ctx True) 100 50 60
         (world_with_runs [first_run, second_run])))) =
     [Op_add_run \<lparr>run_id = Some 3, subtask_name = ''collectJiraIssues'', connection_id = 1,
        started = 50, completed = None, state = json_dumps (JObj [])\<rparr>,
      Op_add_raw \<lparr>params = json_dumps
          (JObj [(''connection_id'', JNum 1), (''scope_id'', JStr ''board-7'')]),
        data = json_dumps (JObj [(''page'', JNum 1)])\<rparr>] \<and>
   filter (\<lambda>ev. \<not> is_checkpoint_event ev) (journal (world_after
      (Subtask_run (Collector echo_stream) (example_ctx False) 100 50 60
         (world_with_runs [first_run, second_run])))) =
     [Op_add_run \<lparr>run_id = Some 3, subtask_name = ''collectJiraIssues'', connection_id = 1,
        started = 50, completed = None, state = json_dumps (JObj [])\<rparr>,
      Op_delete_raw (json_dumps
          (JObj [(''connection_id'', JNum 1), (''scope_id'', JStr ''board-7'')])),
      Op_add_raw \<lparr>params = json_dumps
          (JObj [(''connection_id'', JNum 1), (''scope_id'', JStr ''board-7'')]),
        data = json_dumps (JObj [])\<rparr>]"
  by (simp add: eval_defs echo_stream_def first_run_def second_run_def json_dumps_def)

subsection \<open>C6: full refresh of the collector\<close>

lemma collector_loop_raw:
  assumes "n \<noteq> 0"
  shows "raw_records (session (snd (snd (snd
           (run_loop (Collector stream) ctx n items fin r st w))))) =
     raw_records (session w) @
     map (\<lambda>(i, d, s). \<lparr>params = Collector_params ctx, data = json_dumps d\<rparr>) items"
proof (induction items arbitrary: r st w)
  case Nil
  then show ?case by (simp add: run_loop_Nil logger_error_def split: option.splits)
next
  case (Cons item items)
  obtain i d st' where item: "item = (i, d, st')" by (cases item)
  have p: "process (Collector stream) d w ctx =
     (None, session_add_raw \<lparr>params = Collector_params ctx, data = json_dumps d\<rparr> w)"
    by (simp add: Collector_def Collector_process_def)
  show ?case
    by (simp add: item run_loop_Cons p assms checkpoint_def yield_progress_def Let_def
        split_beta Cons.IH session_add_raw_def session_commit_def session_merge_run_def)
qed

lemma map_enumerate_snd:
  "map (\<lambda>(i, d, s). f d) (enumerate k xs) = map (\<lambda>(d, s). f d) xs"
  by (induction xs arbitrary: k) (simp_all add: split_beta)

text \<open>
  C6: a run of the collector that is not incremental, for the params object
  P = \<^verbatim>\<open>{"connection_id": ..., "scope_id": ...}\<close> of the context, first deletes every
  stored raw record whose params equal P and then inserts one raw record per fetched item,
  with the params P and the JSON encoding of the item as data; no raw record with params P
  of an earlier run survives. Here for every interval other than zero: the run returns,
  and the committed raw records afterwards are the earlier ones of other params, followed
  by one record for each item that \<^verbatim>\<open>stream.collect\<close> yielded from the empty state, in
  order, each with the params P.
\<close>

theorem collector_full_refresh:
  assumes "\<not> incremental ctx" and "sync_point_interval \<noteq> 0"
  shows "raised (Subtask_run (Collector stream) ctx sync_point_interval t_start t_end w) = None \<and>
    raw_records (committed (world_after
        (Subtask_run (Collector stream) ctx sync_point_interval t_start t_end w))) =
      filter (\<lambda>raw. params raw \<noteq>
          json_dumps (JObj [(''connection_id'', JNum (ctx_connection_id ctx)),
                            (''scope_id'', scope_id ctx)]))
        (raw_records (committed w)) @
      map (\<lambda>(d, s).
          \<lparr>params = json_dumps (JObj [(''connection_id'', JNum (ctx_connection_id ctx)),
                                      (''scope_id'', scope_id ctx)]),
           data = json_dumps d\<rparr>)
        (fst (collect stream (JObj []) ctx))"
proof -
  let ?w1 = "snd (start_subtask (Collector stream) t_start (session_open w) (ctx_connection_id ctx))"
  let ?r = "fst (start_subtask (Collector stream) t_start (session_open w) (ctx_connection_id ctx))"
  let ?w2 = "session_delete_raw (Collector_params ctx) ?w1"
  have su: "run_setup (Collector stream) ctx t_start (session_open w) =
      (None, ?r, JObj [], ?w2)"
    using assms(1) by (simp add: run_setup_modes Collector_def Collector_delete_def)
  obtain xs fin where c: "collect stream (JObj []) ctx = (xs, fin)"
    by (cases "collect stream (JObj []) ctx")
  have fe: "fetch (Collector stream) (JObj []) ?w2 ctx = (xs, fin)"
    by (simp add: Collector_def Collector_fetch_def c)
  have raw2: "raw_records (session ?w2) =
      filter (\<lambda>raw. params raw \<noteq> Collector_params ctx) (raw_records (committed w))"
    by (simp add: session_delete_raw_def start_subtask_eq session_open_def)
  have "raw_records (committed (world_after
        (Subtask_run (Collector stream) ctx sync_point_interval t_start t_end w))) =
      raw_records (session (snd (snd (snd
        (run_loop (Collector stream) ctx sync_point_interval (enumerate 0 xs) fin ?r (JObj []) ?w2)))))"
    by (simp add: Subtask_run_world(1) [OF su fe] session_close_def finalize_def Let_def
        session_commit_def session_merge_run_def)
  then have "raw_records (committed (world_after
        (Subtask_run (Collector stream) ctx sync_point_interval t_start t_end w))) =
      filter (\<lambda>raw. params raw \<noteq> Collector_params ctx) (raw_records (committed w)) @
      map (\<lambda>(d, s). \<lparr>params = Collector_params ctx, data = json_dumps d\<rparr>)
        (fst (collect stream (JObj []) ctx))"
    by (simp add: collector_loop_raw [OF assms(2)] raw2 map_enumerate_snd c)
  then show ?thesis
    using Subtask_run_world(3) [OF su fe] by (simp add: Collector_params_def)
qed

text \<open>
  C6 on a table that holds one raw record of the scope and one of another scope, with a
  source that yields three items (and then raises): the record of the scope is gone, the
  other one is kept, and the three items are stored under the params of the scope,
  \<^verbatim>\<open>{"connection_id": 1, "scope_id": "board-7"}\<close>.
\<close>

theorem collector_full_refresh_witness:
  "raised (Subtask_run (Collector interrupted_stream) (example_ctx False) 100 5 9
      (world_with_raw [stale_raw, foreign_raw])) = None \<and>
   raw_records (committed (world_after
      (Subtask_run (Collector interrupted_stream) (example_ctx False) 100 5 9
         (world_with_raw [stale_raw, foreign_raw])))) =
     [\<lparr>params = json_dumps (JObj [(''connection_id'', JNum 2), (''scope_id'', JStr ''board-9'')]),
       data = json_dumps (JStr ''other'')\<rparr>,
      \<lparr>params = json_dumps (JObj [(''connection_id'', JNum 1), (''scope_id'', JStr ''board-7'')]),
       data = json_dumps (JStr ''a'')\<rparr>,
      \<lparr>params = json_dumps (JObj [(''connection_id'', JNum 1), (''scope_id'', JStr ''board-7'')]),
       data = json_dumps (JStr ''b'')\<rparr>,
      \<lparr>params = json_dumps (JObj [(''connection_id'', JNum 1), (''scope_id'', JStr ''board-7'')]),
       data = json_dumps (JStr ''c'')\<rparr>]"
  using collector_full_refresh
    [of "example_ctx False" 100 interrupted_stream 5 9 "world_with_raw [stale_raw, foreign_raw]"]
  by (simp add: example_ctx_def world_with_raw_def stale_raw_def foreign_raw_def
      json_dumps_def interrupted_stream_def)

subsection \<open>The convertor: what one call of process does\<close>

lemma save_journal: "journal (Convertor_save t obj w c) = journal w @ upserted t c obj"
  by (cases obj) (simp_all add: Convertor_save_def session_merge_domain_def logger_error_def)

lemma save_log: "log (Convertor_save t obj w c) = log w @ rejected obj"
  by (cases obj) (simp_all add: Convertor_save_def session_merge_domain_def logger_error_def)

lemma save_calls: "convert_calls (Convertor_save t obj w c) = convert_calls w"
  by (cases obj) (simp_all add: Convertor_save_def session_merge_domain_def logger_error_def)

lemma fold_save_journal:
  "journal (fold (\<lambda>each w'. Convertor_save t each w' c) ys w) =
     journal w @ concat (map (upserted t c) ys)"
  by (induction ys arbitrary: w) (simp_all add: save_journal)

lemma fold_save_log:
  "log (fold (\<lambda>each w'. Convertor_save t each w' c) ys w) = log w @ concat (map rejected ys)"
  by (induction ys arbitrary: w) (simp_all add: save_log)

lemma fold_save_calls:
  "convert_calls (fold (\<lambda>each w'. Convertor_save t each w' c) ys w) = convert_calls w"
  by (induction ys arbitrary: w) (simp_all add: save_calls)

lemma upserted_id:
  "op \<in> set (upserted t c obj) \<Longrightarrow>
     \<exists>d. op = Op_merge_domain d \<and> domain_model_id d = Some (generate_domain_id t c)"
  by (cases obj) auto

lemma process_journal:
  "\<exists>ys. journal (snd (Convertor_process stream t w ctx)) =
     journal w @ concat (map (upserted t (ctx_connection_id ctx)) ys)"
proof (cases "convert stream (convert_calls w) t")
  case (Inl e)
  then have "journal (snd (Convertor_process stream t w ctx)) =
     journal w @ concat (map (upserted t (ctx_connection_id ctx)) [])"
    by (simp add: Convertor_process_def stream_convert_def)
  then show ?thesis by blast
next
  case first: (Inr res)
  show ?thesis
  proof (cases "is_generator res")
    case False
    then have "journal (snd (Convertor_process stream t w ctx)) =
       journal w @ concat (map (upserted t (ctx_connection_id ctx)) [res])"
      using first by (simp add: Convertor_process_def stream_convert_def save_journal)
    then show ?thesis by blast
  next
    case True
    show ?thesis
    proof (cases "convert stream (Suc (convert_calls w)) t")
      case (Inl e)
      then have "journal (snd (Convertor_process stream t w ctx)) =
         journal w @ concat (map (upserted t (ctx_connection_id ctx)) [])"
        using first True by (simp add: Convertor_process_def stream_convert_def)
      then show ?thesis by blast
    next
      case (Inr res2)
      then have "journal (snd (Convertor_process stream t w ctx)) =
         journal w @ concat (map (upserted t (ctx_connection_id ctx)) (fst (py_iter res2)))"
        using first True
        by (simp add: Convertor_process_def stream_convert_def split_beta fold_save_journal)
      then show ?thesis by blast
    qed
  qed
qed

lemmas convert_defs = Convertor_process_def stream_convert_def Convertor_save_def
  session_merge_domain_def merge_domain_def same_domain_key_def logger_error_def
  generate_domain_id_def converting_def single_stream_def generator_stream_def list_stream_def
  changing_stream_def issue_def ticket_def board_issue_def example_ctx_def empty_world_def
  empty_db_def

subsection \<open>C7: what a conversion function may return\<close>

text \<open>
  C7 says that a conversion function returning a sequence of two domain records results in
  exactly two upserts. \<^verbatim>\<open>process\<close> iterates the result only when it is a generator: a
  list of two domain records is passed to \<^verbatim>\<open>_save\<close> as one value, which is not a
  \<^verbatim>\<open>DomainModel\<close>, so nothing is upserted and one error is logged.
\<close>

theorem list_of_domain_records_not_upserted:
  "Convertor_process list_stream issue empty_world (example_ctx False) =
     (None, empty_world\<lparr>convert_calls := 1,
        log := [Logged_not_domain_model (ListObj [DomainObj ticket, DomainObj board_issue])]\<rparr>)"
  by (simp add: convert_defs)

text \<open>
  C7 as the code has it. When the conversion function returns a value that is not a
  generator, that value alone is saved: a domain record is upserted once, any other value
  (a list included) is logged once and not upserted, and no exception is raised. When it
  returns a generator, the values of the generator that the second call returns are saved
  one by one, in order: each domain record is upserted, each other value is logged and
  skipped, and the loop goes on; an exception is raised only if that iteration raises.
\<close>

theorem convert_polymorphism:
  assumes "convert stream (convert_calls w) tool_model = Inr res"
  shows "(\<not> is_generator res \<longrightarrow>
           fst (Convertor_process stream tool_model w ctx) = None \<and>
           journal (snd (Convertor_process stream tool_model w ctx)) =
             journal w @ upserted tool_model (ctx_connection_id ctx) res \<and>
           log (snd (Convertor_process stream tool_model w ctx)) = log w @ rejected res) \<and>
         (is_generator res \<longrightarrow>
           (\<forall>ys fin. convert stream (Suc (convert_calls w)) tool_model = Inr (GeneratorObj ys fin) \<longrightarrow>
              fst (Convertor_process stream tool_model w ctx) = fin \<and>
              journal (snd (Convertor_process stream tool_model w ctx)) =
                journal w @ concat (map (upserted tool_model (ctx_connection_id ctx)) ys) \<and>
              log (snd (Convertor_process stream tool_model w ctx)) =
                log w @ concat (map rejected ys)))"
  using assms
  by (simp add: Convertor_process_def stream_convert_def split_beta save_journal save_log
      fold_save_journal fold_save_log)

text \<open>
  C7 on a function that returns one domain record (one upsert, nothing logged) and on one
  that returns a generator of a domain record, \<^verbatim>\<open>None\<close> and a second domain record (two
  upserts, one error logged for \<^verbatim>\<open>None\<close>, no exception).
\<close>

theorem convert_polymorphism_witness:
  "fst (Convertor_process single_stream issue empty_world (example_ctx False)) = None \<and>
   journal (snd (Convertor_process single_stream issue empty_world (example_ctx False))) =
     [Op_merge_domain (ticket\<lparr>domain_model_id := Some (DomainId ''issue-1'' 1)\<rparr>)] \<and>
   log (snd (Convertor_process single_stream issue empty_world (example_ctx False))) = [] \<and>
   fst (Convertor_process generator_stream issue empty_world (example_ctx False)) = None \<and>
   journal (snd (Convertor_process generator_stream issue empty_world (example_ctx False))) =
     [Op_merge_domain (ticket\<lparr>domain_model_id := Some (DomainId ''issue-1'' 1)\<rparr>),
      Op_merge_domain (board_issue\<lparr>domain_model_id := Some (DomainId ''issue-1'' 1)\<rparr>)] \<and>
   log (snd (Convertor_process generator_stream issue empty_world (example_ctx False))) =
     [Logged_not_domain_model NoneObj]"
proof -
  have a: "convert single_stream (convert_calls empty_world) issue = Inr (DomainObj ticket)"
    by (simp add: single_stream_def converting_def)
  have b: "convert generator_stream (convert_calls empty_world) issue =
      Inr (GeneratorObj [DomainObj ticket, NoneObj, DomainObj board_issue] None)"
    by (simp add: generator_stream_def converting_def)
  have c: "convert generator_stream (Suc (convert_calls empty_world)) issue =
      Inr (GeneratorObj [DomainObj ticket, NoneObj, DomainObj board_issue] None)"
    by (simp add: generator_stream_def converting_def)
  show ?thesis
    using convert_polymorphism [OF a, of "example_ctx False"]
      convert_polymorphism [OF b, of "example_ctx False"] c
    by (simp add: empty_world_def example_ctx_def generate_domain_id_def issue_def)
qed

subsection \<open>C8: the identifier of a domain record\<close>

text \<open>
  C8: every domain record upserted by the convertor has its id set to
  \<^verbatim>\<open>generate_domain_id(tool_model, connection_id)\<close> before the upsert, and the generation
  is deterministic: equal (tool record identity, connection id) pairs give equal ids, and
  different connection ids for the same tool identity give different ids. The first part is
  about \<^verbatim>\<open>_save\<close>: every call that one \<^verbatim>\<open>process\<close> adds to the journal of the session is a
  merge of a domain record carrying that id. The second part is about
  \<open>generate_domain_id\<close> as modelled from the spec.
\<close>

theorem domain_id_assigned_before_upsert:
  "(\<forall>op \<in> set (drop (length (journal w))
                  (journal (snd (Convertor_process stream tool_model w ctx)))).
      \<exists>d. op = Op_merge_domain d \<and>
          domain_model_id d = Some (generate_domain_id tool_model (ctx_connection_id ctx))) \<and>
   (generate_domain_id t1 c1 = generate_domain_id t2 c2 \<longleftrightarrow>
      tool_identity t1 = tool_identity t2 \<and> c1 = c2)"
proof -
  obtain ys where "journal (snd (Convertor_process stream tool_model w ctx)) =
     journal w @ concat (map (upserted tool_model (ctx_connection_id ctx)) ys)"
    using process_journal by blast
  then show ?thesis
    by (auto simp: generate_domain_id_def dest: upserted_id)
qed

text \<open>
  C8 on the function that returns one domain record: it is merged with the id generated
  from the tool record and connection 1, and the ids for connections 1 and 2 differ.
\<close>

theorem domain_id_assigned_before_upsert_witness:
  "drop (length (journal empty_world))
     (journal (snd (Convertor_process single_stream issue empty_world (example_ctx False)))) =
     [Op_merge_domain (ticket\<lparr>domain_model_id := Some (generate_domain_id issue 1)\<rparr>)] \<and>
   generate_domain_id issue 1 = generate_domain_id issue 1 \<and>
   generate_domain_id issue 1 \<noteq> generate_domain_id issue 2"
  using domain_id_assigned_before_upsert
    [of empty_world single_stream issue "example_ctx False" issue 1 issue 2]
  by (simp add: convert_defs)

subsection \<open>C9: what is committed, and when\<close>




subsection \<open>C10: the second call of the conversion function\<close>

text \<open>
  C10: when the conversion function returns a generator for a tool record, \<^verbatim>\<open>process\<close>
  calls it a second time and upserts the values of that second call, and the generator of
  the first call is never consumed; so the function is called exactly twice for the tool
  record in the generator case and exactly once otherwise. The number of calls made by one
  \<^verbatim>\<open>process\<close>, and, in the generator case, its result: the values of the generator
  returned by the second call are saved in order, and its exception, if any, is raised,
  whatever the first generator holds.
\<close>

theorem convert_called_twice_for_generator:
  "convert_calls (snd (Convertor_process stream tool_model w ctx)) =
     convert_calls w +
       (case convert stream (convert_calls w) tool_model of
          Inr res \<Rightarrow> if is_generator res then 2 else 1
        | Inl e \<Rightarrow> 1) \<and>
   (\<forall>ys1 fin1 ys2 fin2.
      convert stream (convert_calls w) tool_model = Inr (GeneratorObj ys1 fin1) \<longrightarrow>
      convert stream (Suc (convert_calls w)) tool_model = Inr (GeneratorObj ys2 fin2) \<longrightarrow>
        Convertor_process stream tool_model w ctx =
          (fin2,
           fold (\<lambda>each w'. Convertor_save tool_model each w' (ctx_connection_id ctx))
             ys2 (w\<lparr>convert_calls := convert_calls w + 2\<rparr>)) \<and>
        journal (snd (Convertor_process stream tool_model w ctx)) =
          journal w @ concat (map (upserted tool_model (ctx_connection_id ctx)) ys2))"
  by (auto simp add: Convertor_process_def stream_convert_def split_beta save_calls
      fold_save_calls fold_save_journal split: sum.splits)

text \<open>
  C10 on a function whose first call returns a generator of one domain record and whose
  later calls return a generator of another one: two calls are made and the record of the
  second call is the one upserted. On the function that returns one domain record, one
  call is made.
\<close>

theorem convert_called_twice_for_generator_witness:
  "convert_calls (snd (Convertor_process changing_stream issue empty_world (example_ctx False)))
     = 2 \<and>
   journal (snd (Convertor_process changing_stream issue empty_world (example_ctx False))) =
     [Op_merge_domain (board_issue\<lparr>domain_model_id := Some (DomainId ''issue-1'' 1)\<rparr>)] \<and>
   convert_calls (snd (Convertor_process single_stream issue empty_world (example_ctx False)))
     = 1"
  using convert_called_twice_for_generator
      [of changing_stream issue empty_world "example_ctx False"]
    convert_called_twice_for_generator
      [of single_stream issue empty_world "example_ctx False"]
  by (simp add: convert_defs)

end
